theory Spec2Isabelle
  imports Complex_Main
begin

section \<open>The geometry collaborators\<close>

text \<open>
  \<^verbatim>\<open>tool.py\<close> imports \<^verbatim>\<open>Frame\<close> and \<^verbatim>\<open>Transformation\<close> from the geometry library.
  Their code is not part of the repository; the definitions of this section follow the
  data model of the specification: a frame is an origin point and two axis vectors, the
  third axis being implied, and a transformation is a composable 4x4 affine matrix.
  Python floats are idealised as real numbers, so arithmetic is exact.
\<close>

text \<open>
  Modelled from the spec: the points and vectors of the geometry library, with the sum,
  the scaling, the dot product and the cross product of vectors.
\<close>

datatype vec3 = V3 real real real

fun vadd :: "vec3 \<Rightarrow> vec3 \<Rightarrow> vec3" where
  "vadd (V3 a1 a2 a3) (V3 b1 b2 b3) = V3 (a1 + b1) (a2 + b2) (a3 + b3)"

fun vscale :: "real \<Rightarrow> vec3 \<Rightarrow> vec3" where
  "vscale k (V3 a1 a2 a3) = V3 (k * a1) (k * a2) (k * a3)"

fun dot :: "vec3 \<Rightarrow> vec3 \<Rightarrow> real" where
  "dot (V3 a1 a2 a3) (V3 b1 b2 b3) = a1 * b1 + a2 * b2 + a3 * b3"

fun cross :: "vec3 \<Rightarrow> vec3 \<Rightarrow> vec3" where
  "cross (V3 a1 a2 a3) (V3 b1 b2 b3) =
     V3 (a2 * b3 - a3 * b2) (a3 * b1 - a1 * b3) (a1 * b2 - a2 * b1)"

text \<open>
  Modelled from the spec: the class \<^verbatim>\<open>Frame\<close>, "an oriented coordinate system defined by
  an origin point and two orthogonal axis vectors (third axis implied)".
\<close>

record frame =
  point :: vec3
  xaxis :: vec3
  yaxis :: vec3

definition zaxis :: "frame \<Rightarrow> vec3" where
  "zaxis f = cross (xaxis f) (yaxis f)"

text \<open>
  Modelled from the spec: \<^verbatim>\<open>Frame.worldXY()\<close>, "the canonical world frame (origin, unit
  X/Y/Z axes)".
\<close>

definition worldXY :: frame where
  "worldXY = \<lparr>point = V3 0 0 0, xaxis = V3 1 0 0, yaxis = V3 0 1 0\<rparr>"

text \<open>
  The specification's validity condition of a frame: its two axes are orthonormal.
\<close>

definition valid_frame :: "frame \<Rightarrow> bool" where
  "valid_frame f \<longleftrightarrow>
     dot (xaxis f) (xaxis f) = 1 \<and> dot (yaxis f) (yaxis f) = 1 \<and> dot (xaxis f) (yaxis f) = 0"

text \<open>
  Modelled from the spec: the class \<^verbatim>\<open>Transformation\<close>, a "composable 4x4 affine
  transform". The last row of such a matrix is \<open>(0, 0, 0, 1)\<close>; the record keeps the
  other three rows as four columns: the images of the three unit vectors and the
  translation.
\<close>

record transformation =
  col_x :: vec3
  col_y :: vec3
  col_z :: vec3
  translation :: vec3

text \<open>Modelled from the spec: the linear part of a transformation applied to a vector.\<close>

fun apply_linear :: "transformation \<Rightarrow> vec3 \<Rightarrow> vec3" where
  "apply_linear T (V3 v1 v2 v3) =
     vadd (vadd (vscale v1 (col_x T)) (vscale v2 (col_y T))) (vscale v3 (col_z T))"

text \<open>
  Modelled from the spec: the product \<^verbatim>\<open>A * B\<close> of two transformations, the product of
  the two 4x4 matrices.
\<close>

definition mul :: "transformation \<Rightarrow> transformation \<Rightarrow> transformation" where
  "mul A B =
     \<lparr>col_x = apply_linear A (col_x B),
      col_y = apply_linear A (col_y B),
      col_z = apply_linear A (col_z B),
      translation = vadd (apply_linear A (translation B)) (translation A)\<rparr>"

text \<open>
  Modelled from the spec: \<^verbatim>\<open>Transformation.from_frame\<close>, \<open>transform_of(f)\<close>: the matrix
  whose columns are the three axes of the frame and its origin.
\<close>

definition from_frame :: "frame \<Rightarrow> transformation" where
  "from_frame f =
     \<lparr>col_x = xaxis f, col_y = yaxis f, col_z = zaxis f, translation = point f\<rparr>"

text \<open>
  Modelled from the spec: \<^verbatim>\<open>Frame.from_transformation\<close>, a transformation "converted back
  to a frame": the origin is the translation, the axes are the first two basis vectors.
  For the rigid transformations that valid frames give rise to, these are the first two
  columns of the matrix.
\<close>

definition from_transformation :: "transformation \<Rightarrow> frame" where
  "from_transformation T = \<lparr>point = translation T, xaxis = col_x T, yaxis = col_y T\<rparr>"

text \<open>
  Modelled from the spec: the inverse of a transformation, which the transformation from
  one frame to another needs: the determinant of the linear part, and the inverse of an
  affine matrix by cofactors. In HOL a division by zero is zero: the inverse means
  something only where the determinant is not zero, which holds for every valid frame
  (\<open>det_from_frame\<close> below).
\<close>

definition det :: "transformation \<Rightarrow> real" where
  "det T = dot (col_x T) (cross (col_y T) (col_z T))"

fun rows_to_cols :: "vec3 \<Rightarrow> vec3 \<Rightarrow> vec3 \<Rightarrow> vec3 \<times> vec3 \<times> vec3" where
  "rows_to_cols (V3 a1 a2 a3) (V3 b1 b2 b3) (V3 c1 c2 c3) =
     (V3 a1 b1 c1, V3 a2 b2 c2, V3 a3 b3 c3)"

definition inverse_linear :: "transformation \<Rightarrow> transformation" where
  "inverse_linear T =
     (let d = det T;
          (cx, cy, cz) = rows_to_cols
             (vscale (1 / d) (cross (col_y T) (col_z T)))
             (vscale (1 / d) (cross (col_z T) (col_x T)))
             (vscale (1 / d) (cross (col_x T) (col_y T)))
      in \<lparr>col_x = cx, col_y = cy, col_z = cz, translation = V3 0 0 0\<rparr>)"

definition inverse_transformation :: "transformation \<Rightarrow> transformation" where
  "inverse_transformation T =
     (let L = inverse_linear T
      in L\<lparr>translation := vscale (- 1) (apply_linear L (translation T))\<rparr>)"

text \<open>
  Modelled from the spec: \<^verbatim>\<open>Transformation.from_frame_to_frame\<close>, "the transform that maps"
  the first frame "onto" the second.
\<close>

definition from_frame_to_frame :: "frame \<Rightarrow> frame \<Rightarrow> transformation" where
  "from_frame_to_frame frame_from frame_to =
     mul (from_frame frame_to) (inverse_transformation (from_frame frame_from))"


section \<open>Python values, dictionaries and the object store\<close>

text \<open>
  Objects are held in a store and named by references. A mesh is only ever passed on by
  reference, so the store holds no mesh contents.
\<close>

type_synonym ref = nat

record link =
  lname :: string
  visual_mesh :: "ref option"
  collision_mesh :: "ref option"

datatype joint = Joint string

text \<open>
  The values that the serialised dictionaries and the dynamically typed attributes
  \<^verbatim>\<open>name\<close> and \<^verbatim>\<open>link_name\<close> hold. The serialised forms of a frame, of the links and of the
  joints are defined by the libraries; they are kept opaque.
\<close>

datatype pyval =
    PNone
  | PStr string
  | PFrameData frame
  | PLinks "link list"
  | PJoints "joint list"

type_synonym dict = "string \<rightharpoonup> pyval"

text \<open>Python's truth value of an object, as \<^verbatim>\<open>or\<close> tests it.\<close>

fun truthy :: "pyval \<Rightarrow> bool" where
  "truthy PNone = False"
| "truthy (PStr s) = (s \<noteq> [])"
| "truthy (PFrameData f) = True"
| "truthy (PLinks ls) = (ls \<noteq> [])"
| "truthy (PJoints js) = (js \<noteq> [])"

definition py_or :: "pyval \<Rightarrow> pyval \<Rightarrow> pyval" where
  "py_or a b = (if truthy a then a else b)"

datatype error = KeyError string | AttributeError string | FrameDataError

text \<open>
  Modelled from the spec: \<^verbatim>\<open>Frame.data\<close> and \<^verbatim>\<open>Frame.from_data\<close>, "the frame's own
  serialized form" and its deserialisation, which fails on anything else.
\<close>

definition Frame_data :: "frame \<Rightarrow> pyval" where
  "Frame_data f = PFrameData f"

fun Frame_from_data :: "pyval \<Rightarrow> error + frame" where
  "Frame_from_data (PFrameData f) = Inr f"
| "Frame_from_data v = Inl FrameDataError"

section \<open>The base class\<close>

text \<open>
  Modelled from the spec: the class \<^verbatim>\<open>RobotModel\<close> (\<^verbatim>\<open>robot.py\<close> is not among the sources),
  the "generic tree of named links/joints with serialization support". Its tree indices
  and forward-kinematics caches, which \<^verbatim>\<open>_rebuild_tree\<close> and \<^verbatim>\<open>_create\<close> recompute, are not
  part of the model.
\<close>

record robot_model =
  name :: pyval
  links :: "link list"
  joints :: "joint list"

text \<open>Modelled from the spec: \<^verbatim>\<open>RobotModel.__init__(name)\<close>, an empty tree with a name.\<close>

definition RobotModel_init :: "pyval \<Rightarrow> robot_model" where
  "RobotModel_init n = \<lparr>name = n, links = [], joints = []\<rparr>"

text \<open>
  Modelled from the spec: \<^verbatim>\<open>RobotModel.add_link\<close>, which adds one link carrying the given
  visual and collision meshes.
\<close>

definition add_link ::
  "string \<Rightarrow> ref option \<Rightarrow> ref option \<Rightarrow> 'a robot_model_scheme \<Rightarrow> 'a robot_model_scheme" where
  "add_link n visual collision r =
     r\<lparr>links := links r @ [\<lparr>lname = n, visual_mesh = visual, collision_mesh = collision\<rparr>]\<rparr>"

text \<open>
  Modelled from the spec: the \<^verbatim>\<open>data\<close> property of \<^verbatim>\<open>RobotModel\<close>, a dictionary that is
  "always recomputed from current state, never cached".
\<close>

definition RobotModel_data :: "'a robot_model_scheme \<Rightarrow> dict" where
  "RobotModel_data r =
     [''name'' \<mapsto> name r, ''links'' \<mapsto> PLinks (links r), ''joints'' \<mapsto> PJoints (joints r)]"

text \<open>
  Modelled from the spec: \<^verbatim>\<open>RobotModel.from_data\<close>, which "reconstructs the base tree" and
  tolerates a missing name.
\<close>

definition RobotModel_from_data :: "dict \<Rightarrow> robot_model" where
  "RobotModel_from_data d =
     \<lparr>name = (case d ''name'' of Some n \<Rightarrow> n | None \<Rightarrow> PNone),
      links = (case d ''links'' of Some (PLinks ls) \<Rightarrow> ls | _ \<Rightarrow> []),
      joints = (case d ''joints'' of Some (PJoints js) \<Rightarrow> js | _ \<Rightarrow> [])\<rparr>"

section \<open>ToolModel\<close>

text \<open>
  \<^verbatim>\<open>class ToolModel(RobotModel)\<close>: the base class extended by the attributes \<^verbatim>\<open>frame\<close> (a
  reference to a \<^verbatim>\<open>Frame\<close> object) and \<^verbatim>\<open>link_name\<close>.
\<close>

record tool_model = robot_model +
  frame :: ref
  link_name :: pyval

text \<open>
  The store: the \<^verbatim>\<open>Frame\<close> objects, the instances of the base class, the instances of
  \<^verbatim>\<open>ToolModel\<close>, and the next unused reference. The references below \<open>next_ref\<close> name the
  objects that exist.
\<close>

record store =
  frames :: "ref \<Rightarrow> frame"
  robots :: "ref \<Rightarrow> robot_model"
  tools :: "ref \<Rightarrow> tool_model"
  next_ref :: ref

text \<open>Creating an object: the next unused reference is taken.\<close>

definition new_frame :: "frame \<Rightarrow> store \<Rightarrow> ref \<times> store" where
  "new_frame f s = (next_ref s, s\<lparr>frames := (frames s)(next_ref s := f), next_ref := Suc (next_ref s)\<rparr>)"

definition new_tool :: "tool_model \<Rightarrow> store \<Rightarrow> ref \<times> store" where
  "new_tool t s = (next_ref s, s\<lparr>tools := (tools s)(next_ref s := t), next_ref := Suc (next_ref s)\<rparr>)"

text \<open>
  \<^verbatim>\<open>ToolModel.__init__\<close> (lines 38 to 54). An omitted optional argument is \<open>None\<close>; for
  \<^verbatim>\<open>collision\<close>, whose default is Python's \<^verbatim>\<open>None\<close>, \<open>None\<close> is also that value. A mesh object
  is taken to be truthy, so \<^verbatim>\<open>collision or visual\<close> is \<^verbatim>\<open>visual\<close> exactly when no collision
  mesh is given. Lines 50 and 51 recompute the caches of the base class, which the model
  leaves out. The new object enters the store when all its attributes are set.
\<close>

definition ToolModel_init ::
  "ref \<Rightarrow> ref \<Rightarrow> ref option \<Rightarrow> pyval option \<Rightarrow> pyval option \<Rightarrow> store \<Rightarrow> ref \<times> store" where
  "ToolModel_init visual frame_in_tool0_frame collision name_arg link_name_arg s =
     (let collision' = (case collision of None \<Rightarrow> visual | Some c \<Rightarrow> c);
          n = (case name_arg of None \<Rightarrow> PStr ''attached_tool'' | Some v \<Rightarrow> v);
          lnk = (case link_name_arg of None \<Rightarrow> PNone | Some v \<Rightarrow> v);
          base = add_link ''attached_tool_link'' (Some visual) (Some collision')
                   (RobotModel_init n)
      in new_tool (robot_model.extend base \<lparr>frame = frame_in_tool0_frame, link_name = lnk\<rparr>) s)"

text \<open>\<^verbatim>\<open>ToolModel.dtype\<close> (lines 75 to 77).\<close>

definition dtype :: "ref \<Rightarrow> store \<Rightarrow> string" where
  "dtype self s = ''compas_robots/ToolModel''"

text \<open>
  Python's lookup of the attribute \<^verbatim>\<open>fget\<close> on a dictionary: a \<^verbatim>\<open>dict\<close> has no such attribute,
  the lookup raises \<^verbatim>\<open>AttributeError\<close>.
\<close>

definition dict_fget :: "dict \<Rightarrow> error + (ref \<Rightarrow> store \<Rightarrow> dict)" where
  "dict_fget d = Inl (AttributeError ''fget'')"

text \<open>
  \<^verbatim>\<open>ToolModel.data\<close> (lines 79 to 92). In line 89, \<^verbatim>\<open>super(ToolModel, self).data\<close> is looked up
  through the instance, so it is the value of the property of the base class, a
  dictionary (line 70 uses \<^verbatim>\<open>robot.data\<close> as one), and not the property object; the source
  then looks up \<^verbatim>\<open>fget\<close> on this dictionary and calls it with \<^verbatim>\<open>self\<close>.
\<close>

definition data :: "ref \<Rightarrow> store \<Rightarrow> error + dict" where
  "data self s =
     (case dict_fget (RobotModel_data (tools s self)) of
        Inl e \<Rightarrow> Inl e
      | Inr fget \<Rightarrow>
          (let d = fget self s;
               d = d(''frame'' \<mapsto> Frame_data (frames s (frame (tools s self))));
               d = d(''link_name'' \<mapsto> link_name (tools s self))
           in Inr d))"

text \<open>
  \<^verbatim>\<open>ToolModel.from_data\<close> (lines 94 to 115), in the order of the source: the base tree
  (line 111), the name (line 112), the frame (line 113), where \<^verbatim>\<open>data["frame"]\<close> raises
  \<^verbatim>\<open>KeyError\<close> when the key is absent, and the link name (line 114). The new tool enters
  the store when all its attributes are set; a call that raises leaves the store as it
  was.
\<close>

definition from_data :: "dict \<Rightarrow> store \<Rightarrow> error + ref \<times> store" where
  "from_data d s =
     (let tool = RobotModel_from_data d;
          tool = tool\<lparr>name := py_or (name tool) (PStr ''attached_tool'')\<rparr>
      in case d ''frame'' of
           None \<Rightarrow> Inl (KeyError ''frame'')
         | Some fd \<Rightarrow>
             (case Frame_from_data fd of
                Inl e \<Rightarrow> Inl e
              | Inr f \<Rightarrow>
                  (let (fr, s1) = new_frame f s;
                       lnk = (case d ''link_name'' of Some v \<Rightarrow> v | None \<Rightarrow> PNone)
                   in Inr (new_tool (robot_model.extend tool \<lparr>frame = fr, link_name = lnk\<rparr>) s1))))"

text \<open>
  The argument \<^verbatim>\<open>robot\<close> of \<^verbatim>\<open>from_robot_model\<close>: an instance of the base class or, \<^verbatim>\<open>ToolModel\<close>
  being a subclass of \<^verbatim>\<open>RobotModel\<close> (line 11), an instance of \<^verbatim>\<open>ToolModel\<close>.
\<close>

datatype model_ref = RobotModelRef ref | ToolModelRef ref

text \<open>
  \<^verbatim>\<open>robot.data\<close> (line 70), dispatched on the class of \<^verbatim>\<open>robot\<close>: the property of the base
  class, a new dictionary, or \<^verbatim>\<open>ToolModel.data\<close>.
\<close>

fun model_data :: "model_ref \<Rightarrow> store \<Rightarrow> error + dict" where
  "model_data (RobotModelRef r) s = Inr (RobotModel_data (robots s r))"
| "model_data (ToolModelRef r) s = data r s"

text \<open>
  \<^verbatim>\<open>ToolModel.from_robot_model\<close> (lines 56 to 73): first the dictionary of lines 70 to 72,
  then the call of \<^verbatim>\<open>from_data\<close> on it. An omitted \<^verbatim>\<open>link_name\<close> is Python's \<^verbatim>\<open>None\<close>. The
  dictionary of line 70 is a new one, so the two assignments do not reach \<^verbatim>\<open>robot\<close>; when
  line 70 raises, so does the call.
\<close>

definition from_robot_model_data :: "model_ref \<Rightarrow> ref \<Rightarrow> pyval \<Rightarrow> store \<Rightarrow> error + dict" where
  "from_robot_model_data robot frame_in_tool0_frame lnk s =
     (case model_data robot s of
        Inl e \<Rightarrow> Inl e
      | Inr d \<Rightarrow>
          (let d = d(''frame'' \<mapsto> Frame_data (frames s frame_in_tool0_frame));
               d = d(''link_name'' \<mapsto> lnk)
           in Inr d))"

definition from_robot_model ::
  "model_ref \<Rightarrow> ref \<Rightarrow> pyval \<Rightarrow> store \<Rightarrow> error + ref \<times> store" where
  "from_robot_model robot frame_in_tool0_frame lnk s =
     (case from_robot_model_data robot frame_in_tool0_frame lnk s of
        Inl e \<Rightarrow> Inl e
      | Inr d \<Rightarrow> from_data d s)"

text \<open>
  The list comprehension of lines 149 and 183: one new \<^verbatim>\<open>Frame\<close> object for each input
  frame, in order. The transformations and the world frame of lines 148 and 182 are
  temporary values; only the returned frames enter the store.
\<close>

fun frames_times :: "transformation \<Rightarrow> ref list \<Rightarrow> store \<Rightarrow> ref list \<times> store" where
  "frames_times Te [] s = ([], s)"
| "frames_times Te (f # fs) s =
     (let (r, s1) = new_frame (from_transformation (mul (from_frame (frames s f)) Te)) s;
          (rs, s2) = frames_times Te fs s1
      in (r # rs, s2))"

text \<open>\<^verbatim>\<open>ToolModel.from_tcf_to_t0cf\<close> (lines 117 to 149).\<close>

definition from_tcf_to_t0cf :: "ref \<Rightarrow> ref list \<Rightarrow> store \<Rightarrow> ref list \<times> store" where
  "from_tcf_to_t0cf self frames_tcf s =
     (let Te = from_frame_to_frame (frames s (frame (tools s self))) worldXY
      in frames_times Te frames_tcf s)"

text \<open>\<^verbatim>\<open>ToolModel.from_t0cf_to_tcf\<close> (lines 151 to 183).\<close>

definition from_t0cf_to_tcf :: "ref \<Rightarrow> ref list \<Rightarrow> store \<Rightarrow> ref list \<times> store" where
  "from_t0cf_to_tcf self frames_t0cf s =
     (let Te = from_frame_to_frame worldXY (frames s (frame (tools s self)))
      in frames_times Te frames_t0cf s)"


section \<open>Auxiliary notions\<close>

text \<open>The tool object that a constructor call returns, if it returns one.\<close>

fun tool_of :: "error + ref \<times> store \<Rightarrow> tool_model option" where
  "tool_of (Inr (t, s)) = Some (tools s t)"
| "tool_of (Inl e) = None"

text \<open>The identity matrix, the transpose of three columns, and two properties of the
  linear part of a transformation.\<close>

definition identity :: transformation where
  "identity = \<lparr>col_x = V3 1 0 0, col_y = V3 0 1 0, col_z = V3 0 0 1, translation = V3 0 0 0\<rparr>"

fun transpose_cols :: "vec3 \<Rightarrow> vec3 \<Rightarrow> vec3 \<Rightarrow> transformation" where
  "transpose_cols (V3 a1 a2 a3) (V3 b1 b2 b3) (V3 c1 c2 c3) =
     \<lparr>col_x = V3 a1 b1 c1, col_y = V3 a2 b2 c2, col_z = V3 a3 b3 c3, translation = V3 0 0 0\<rparr>"

definition right_handed :: "transformation \<Rightarrow> bool" where
  "right_handed T \<longleftrightarrow> col_z T = cross (col_x T) (col_y T)"

definition rotation :: "transformation \<Rightarrow> bool" where
  "rotation T \<longleftrightarrow>
     cross (col_x T) (col_y T) = col_z T \<and> cross (col_y T) (col_z T) = col_x T \<and>
     cross (col_z T) (col_x T) = col_y T"

text \<open>
  An example state. References 0 and 1 hold the two frames of the docstring of lines 136
  to 138, reference 2 a frame whose axes are exactly orthonormal, reference 3 the input
  frame of the docstring of line 172, reference 4 a robot model with one link and one
  joint; reference 5 is a mesh.
\<close>

definition doc_tool_frame :: frame where
  "doc_tool_frame = \<lparr>point = V3 (14 / 100) 0 0, xaxis = V3 0 1 0, yaxis = V3 0 0 1\<rparr>"

definition doc_tcf_frame :: frame where
  "doc_tcf_frame =
     \<lparr>point = V3 (- 309 / 1000) (- 46 / 1000) (- 266 / 1000),
      xaxis = V3 (276 / 1000) (926 / 1000) (- 256 / 1000),
      yaxis = V3 (879 / 1000) (- 136 / 1000) (456 / 1000)\<rparr>"

definition doc_t0cf_frame :: frame where
  "doc_t0cf_frame =
     \<lparr>point = V3 (- 363 / 1000) (3 / 1000) (- 147 / 1000),
      xaxis = V3 (388 / 1000) (- 351 / 1000) (- 852 / 1000),
      yaxis = V3 (276 / 1000) (926 / 1000) (- 256 / 1000)\<rparr>"

definition exact_frame :: frame where
  "exact_frame = \<lparr>point = V3 1 2 3, xaxis = V3 (3 / 5) (4 / 5) 0, yaxis = V3 (- 4 / 5) (3 / 5) 0\<rparr>"

definition example_robot :: robot_model where
  "example_robot =
     \<lparr>name = PStr ''gripper'',
      links = [\<lparr>lname = ''base'', visual_mesh = Some 5, collision_mesh = None\<rparr>],
      joints = [Joint ''mount'']\<rparr>"

definition example_store :: store where
  "example_store =
     \<lparr>frames = (\<lambda>r. worldXY)(0 := doc_tool_frame, 1 := doc_tcf_frame, 2 := exact_frame, 3 := doc_t0cf_frame),
      robots = (\<lambda>r. RobotModel_init PNone)(4 := example_robot),
      tools = (\<lambda>r. robot_model.extend (RobotModel_init PNone) \<lparr>frame = 0, link_name = PNone\<rparr>),
      next_ref = 6\<rparr>"

text \<open>Two vectors that agree to three decimal places, as the docstrings print them.\<close>

fun close_to :: "vec3 \<Rightarrow> vec3 \<Rightarrow> bool" where
  "close_to (V3 a1 a2 a3) (V3 b1 b2 b3) \<longleftrightarrow>
     \<bar>a1 - b1\<bar> \<le> 1 / 1000 \<and> \<bar>a2 - b2\<bar> \<le> 1 / 1000 \<and> \<bar>a3 - b3\<bar> \<le> 1 / 1000"

text \<open>
  The tool of the docstrings, \<^verbatim>\<open>ToolModel(mesh, frame)\<close>, and a tool constructed with an
  empty name. Both get reference 6.
\<close>

definition doc_tool_store :: store where
  "doc_tool_store = snd (ToolModel_init 5 0 None None None example_store)"

definition unnamed_tool_store :: store where
  "unnamed_tool_store = snd (ToolModel_init 5 0 None (Some (PStr [])) None example_store)"

text \<open>
  The dictionaries that hold the state of these two tools: the data of the base class,
  the frame under \<^verbatim>\<open>"frame"\<close> and the link name under \<^verbatim>\<open>"link_name"\<close>.
\<close>

definition doc_tool_dict :: dict where
  "doc_tool_dict =
     [''name'' \<mapsto> PStr ''attached_tool'',
      ''links'' \<mapsto> PLinks [\<lparr>lname = ''attached_tool_link'', visual_mesh = Some 5,
                              collision_mesh = Some 5\<rparr>],
      ''joints'' \<mapsto> PJoints [],
      ''frame'' \<mapsto> Frame_data doc_tool_frame,
      ''link_name'' \<mapsto> PNone]"

definition unnamed_tool_dict :: dict where
  "unnamed_tool_dict = doc_tool_dict(''name'' \<mapsto> PStr [])"

section \<open>Vectors and transformations\<close>

lemma dot_commute: "dot a b = dot b a"
  by (cases a; cases b) simp

lemma cross_triple: "cross a (cross b c) = vadd (vscale (dot a c) b) (vscale (- dot a b) c)"
  by (cases a; cases b; cases c) (simp add: algebra_simps)

lemma cross_triple_left: "cross (cross a b) c = vadd (vscale (dot a c) b) (vscale (- dot b c) a)"
  by (cases a; cases b; cases c) (simp add: algebra_simps)

lemma vscale_one: "vscale 1 a = a"
  by (cases a) simp

lemma vadd_vscale_zero: "vadd a (vscale 0 b) = a"
  by (cases a; cases b) simp

lemma vadd_vscale_neg: "vadd a (vscale (- 1) a) = V3 0 0 0"
  by (cases a) simp

lemma vadd_assoc: "vadd (vadd a b) c = vadd a (vadd b c)"
  by (cases a; cases b; cases c) simp

lemma dot_cross_self: "dot a (cross a b) = 0" "dot b (cross a b) = 0"
  by (cases a; cases b; simp add: algebra_simps)+

lemma dot_cross_cross: "dot (cross a b) (cross a b) = dot a a * dot b b - dot a b * dot a b"
  by (cases a; cases b) (simp add: algebra_simps power2_eq_square)

text \<open>The three axes of a valid frame are a right-handed orthonormal basis.\<close>

lemma valid_frame_axes:
  assumes "valid_frame f"
  shows "cross (yaxis f) (zaxis f) = xaxis f"
    and "cross (zaxis f) (xaxis f) = yaxis f"
    and "dot (zaxis f) (zaxis f) = 1"
    and "dot (xaxis f) (zaxis f) = 0"
    and "dot (yaxis f) (zaxis f) = 0"
  using assms
  by (simp_all add: valid_frame_def zaxis_def cross_triple cross_triple_left dot_commute
      vscale_one vadd_vscale_zero dot_cross_self dot_cross_cross)

lemma det_from_frame: "valid_frame f \<Longrightarrow> det (from_frame f) = 1"
  by (simp add: det_def from_frame_def valid_frame_axes) (simp add: valid_frame_def)

lemma valid_worldXY: "valid_frame worldXY"
  by (simp add: valid_frame_def worldXY_def)

lemma from_frame_worldXY: "from_frame worldXY = identity"
  by (simp add: from_frame_def worldXY_def identity_def zaxis_def)

subsection \<open>Products\<close>

lemma apply_linear_vadd: "apply_linear A (vadd u v) = vadd (apply_linear A u) (apply_linear A v)"
  by (cases u; cases v; cases "col_x A"; cases "col_y A"; cases "col_z A") (simp add: algebra_simps)

lemma apply_linear_mul: "apply_linear (mul A B) v = apply_linear A (apply_linear B v)"
  by (cases v; cases "col_x A"; cases "col_y A"; cases "col_z A";
      cases "col_x B"; cases "col_y B"; cases "col_z B") (simp add: mul_def algebra_simps)

lemma mul_assoc: "mul (mul A B) C = mul A (mul B C)"
  by (simp add: mul_def[of "mul A B" C] mul_def[of A "mul B C"] apply_linear_mul)
     (simp add: mul_def apply_linear_vadd vadd_assoc)

lemma mul_identity_right: "mul A identity = A"
  by (cases "col_x A"; cases "col_y A"; cases "col_z A"; cases "translation A")
     (simp add: mul_def identity_def)

lemma mul_identity_left: "mul identity A = A"
  by (cases "col_x A"; cases "col_y A"; cases "col_z A"; cases "translation A")
     (simp add: mul_def identity_def)

lemma apply_linear_transpose:
  "apply_linear (transpose_cols a b c) v = V3 (dot a v) (dot b v) (dot c v)"
  by (cases a; cases b; cases c; cases v) (simp add: algebra_simps)

lemma mul_transpose_cols:
  "mul (transpose_cols a b c\<lparr>translation := t\<rparr>) B =
     \<lparr>col_x = V3 (dot a (col_x B)) (dot b (col_x B)) (dot c (col_x B)),
      col_y = V3 (dot a (col_y B)) (dot b (col_y B)) (dot c (col_y B)),
      col_z = V3 (dot a (col_z B)) (dot b (col_z B)) (dot c (col_z B)),
      translation =
        vadd (V3 (dot a (translation B)) (dot b (translation B)) (dot c (translation B))) t\<rparr>"
  by (cases a; cases b; cases c; cases "col_x B"; cases "col_y B"; cases "col_z B";
      cases "translation B")
     (simp add: mul_def algebra_simps)


subsection \<open>The inverse of the transformation of a valid frame\<close>

lemma inverse_linear_from_frame:
  assumes "valid_frame f"
  shows "inverse_linear (from_frame f) = transpose_cols (xaxis f) (yaxis f) (zaxis f)"
proof -
  have d: "det (from_frame f) = 1" using assms by (rule det_from_frame)
  have c: "cross (col_y (from_frame f)) (col_z (from_frame f)) = xaxis f"
      "cross (col_z (from_frame f)) (col_x (from_frame f)) = yaxis f"
      "cross (col_x (from_frame f)) (col_y (from_frame f)) = zaxis f"
    using valid_frame_axes[OF assms] by (simp_all add: from_frame_def zaxis_def)
  show ?thesis
    unfolding inverse_linear_def Let_def d c
    by (cases "xaxis f"; cases "yaxis f"; cases "zaxis f") simp
qed


lemma inverse_transformation_from_frame:
  assumes "valid_frame f"
  shows "inverse_transformation (from_frame f) =
         transpose_cols (xaxis f) (yaxis f) (zaxis f)
           \<lparr>translation := vscale (- 1) (V3 (dot (xaxis f) (point f)) (dot (yaxis f) (point f)) (dot (zaxis f) (point f)))\<rparr>"
  by (simp add: inverse_transformation_def Let_def inverse_linear_from_frame[OF assms]
      apply_linear_transpose) (simp add: from_frame_def)

lemma inverse_mul_from_frame:
  assumes "valid_frame f"
  shows "mul (inverse_transformation (from_frame f)) (from_frame f) = identity"
  using assms valid_frame_axes[OF assms]
  by (simp add: inverse_transformation_from_frame mul_transpose_cols)
     (simp add: from_frame_def valid_frame_def identity_def vadd_vscale_neg dot_commute)


lemma inverse_identity: "inverse_transformation identity = identity"
  using inverse_mul_from_frame[OF valid_worldXY]
  by (simp add: from_frame_worldXY mul_identity_right)

lemma to_world: "from_frame_to_frame f worldXY = inverse_transformation (from_frame f)"
  by (simp add: from_frame_to_frame_def from_frame_worldXY mul_identity_left)

lemma from_world: "from_frame_to_frame worldXY f = from_frame f"
  by (simp add: from_frame_to_frame_def from_frame_worldXY inverse_identity mul_identity_right)

subsection \<open>Frames and transformations converted into each other\<close>

lemma from_frame_from_transformation:
  "right_handed T \<Longrightarrow> from_frame (from_transformation T) = T"
  by (simp add: right_handed_def from_frame_def from_transformation_def zaxis_def)

lemma from_transformation_from_frame: "from_transformation (from_frame f) = f"
  by (simp add: from_frame_def from_transformation_def)

lemma cross_apply_linear_gen:
  "cross (apply_linear A (V3 u1 u2 u3)) (apply_linear A (V3 v1 v2 v3)) =
     vadd (vadd (vscale (u2 * v3 - u3 * v2) (cross (col_y A) (col_z A)))
                (vscale (u3 * v1 - u1 * v3) (cross (col_z A) (col_x A))))
          (vscale (u1 * v2 - u2 * v1) (cross (col_x A) (col_y A)))"
  by (cases "col_x A"; cases "col_y A"; cases "col_z A") (simp add: algebra_simps)

lemma cross_apply_linear:
  "rotation A \<Longrightarrow> cross (apply_linear A u) (apply_linear A v) = apply_linear A (cross u v)"
  by (cases u; cases v) (simp add: cross_apply_linear_gen rotation_def del: apply_linear.simps, simp)

lemma right_handed_mul: "rotation A \<Longrightarrow> right_handed B \<Longrightarrow> right_handed (mul A B)"
  by (simp add: right_handed_def mul_def cross_apply_linear)

lemma rotation_from_frame: "valid_frame f \<Longrightarrow> rotation (from_frame f)"
  by (simp add: rotation_def from_frame_def valid_frame_axes) (simp add: zaxis_def)

lemma right_handed_from_frame: "right_handed (from_frame f)"
  by (simp add: right_handed_def from_frame_def zaxis_def)

lemma right_handed_inverse:
  assumes "valid_frame f"
  shows "right_handed (inverse_transformation (from_frame f))"
proof -
  obtain x1 x2 x3 y1 y2 y3 z1 z2 z3 where
    v: "xaxis f = V3 x1 x2 x3" "yaxis f = V3 y1 y2 y3" "zaxis f = V3 z1 z2 z3"
    by (cases "xaxis f"; cases "yaxis f"; cases "zaxis f") auto
  show ?thesis
    using valid_frame_axes(1,2)[OF assms] v(3)[unfolded zaxis_def]
    by (simp add: inverse_transformation_from_frame[OF assms] right_handed_def v mult.commute)
qed


subsection \<open>The rows of a rotation matrix are orthonormal as well\<close>

lemma rows_orthonormal:
  fixes x1 x2 x3 y1 y2 y3 z1 z2 z3 :: real
  assumes c: "cross (V3 y1 y2 y3) (V3 z1 z2 z3) = V3 x1 x2 x3"
             "cross (V3 z1 z2 z3) (V3 x1 x2 x3) = V3 y1 y2 y3"
             "cross (V3 x1 x2 x3) (V3 y1 y2 y3) = V3 z1 z2 z3"
    and n: "dot (V3 x1 x2 x3) (V3 x1 x2 x3) = 1"
           "dot (V3 y1 y2 y3) (V3 y1 y2 y3) = 1"
           "dot (V3 z1 z2 z3) (V3 z1 z2 z3) = 1"
  shows "x1 * x1 + y1 * y1 + z1 * z1 = 1"
    and "x2 * x2 + y2 * y2 + z2 * z2 = 1"
    and "x3 * x3 + y3 * y3 + z3 * z3 = 1"
    and "x1 * x2 + y1 * y2 + z1 * z2 = 0"
    and "x1 * x3 + y1 * y3 + z1 * z3 = 0"
    and "x2 * x3 + y2 * y3 + z2 * z3 = 0"
proof -
  have e: "x1 = y2 * z3 - y3 * z2" "x2 = y3 * z1 - y1 * z3" "x3 = y1 * z2 - y2 * z1"
          "y1 = z2 * x3 - z3 * x2" "y2 = z3 * x1 - z1 * x3" "y3 = z1 * x2 - z2 * x1"
          "z1 = x2 * y3 - x3 * y2" "z2 = x3 * y1 - x1 * y3" "z3 = x1 * y2 - x2 * y1"
    using c by simp_all
  have d: "x1 * (y2 * z3 - y3 * z2) + x2 * (y3 * z1 - y1 * z3) + x3 * (y1 * z2 - y2 * z1) = 1"
    using n(1) e(1,2,3) by simp
  have "x1 * x1 + y1 * y1 + z1 * z1
      = x1 * (y2 * z3 - y3 * z2) + y1 * (z2 * x3 - z3 * x2) + z1 * (x2 * y3 - x3 * y2)"
    using e(1,4,7) by simp
  also have "\<dots> = x1 * (y2 * z3 - y3 * z2) + x2 * (y3 * z1 - y1 * z3) + x3 * (y1 * z2 - y2 * z1)"
    by (simp add: algebra_simps)
  finally show "x1 * x1 + y1 * y1 + z1 * z1 = 1" using d by simp
  have "x2 * x2 + y2 * y2 + z2 * z2
      = x2 * (y3 * z1 - y1 * z3) + y2 * (z3 * x1 - z1 * x3) + z2 * (x3 * y1 - x1 * y3)"
    using e(2,5,8) by simp
  also have "\<dots> = x1 * (y2 * z3 - y3 * z2) + x2 * (y3 * z1 - y1 * z3) + x3 * (y1 * z2 - y2 * z1)"
    by (simp add: algebra_simps)
  finally show "x2 * x2 + y2 * y2 + z2 * z2 = 1" using d by simp
  have "x3 * x3 + y3 * y3 + z3 * z3
      = x3 * (y1 * z2 - y2 * z1) + y3 * (z1 * x2 - z2 * x1) + z3 * (x1 * y2 - x2 * y1)"
    using e(3,6,9) by simp
  also have "\<dots> = x1 * (y2 * z3 - y3 * z2) + x2 * (y3 * z1 - y1 * z3) + x3 * (y1 * z2 - y2 * z1)"
    by (simp add: algebra_simps)
  finally show "x3 * x3 + y3 * y3 + z3 * z3 = 1" using d by simp
  have "x1 * x2 + y1 * y2 + z1 * z2
      = x1 * (y3 * z1 - y1 * z3) + y1 * (z3 * x1 - z1 * x3) + z1 * (x3 * y1 - x1 * y3)"
    using e(2,5,8) by simp
  also have "\<dots> = 0" by (simp add: algebra_simps)
  finally show "x1 * x2 + y1 * y2 + z1 * z2 = 0" .
  have "x1 * x3 + y1 * y3 + z1 * z3
      = x1 * (y1 * z2 - y2 * z1) + y1 * (z1 * x2 - z2 * x1) + z1 * (x1 * y2 - x2 * y1)"
    using e(3,6,9) by simp
  also have "\<dots> = 0" by (simp add: algebra_simps)
  finally show "x1 * x3 + y1 * y3 + z1 * z3 = 0" .
  have "x2 * x3 + y2 * y3 + z2 * z3
      = x2 * (y1 * z2 - y2 * z1) + y2 * (z1 * x2 - z2 * x1) + z2 * (x1 * y2 - x2 * y1)"
    using e(3,6,9) by simp
  also have "\<dots> = 0" by (simp add: algebra_simps)
  finally show "x2 * x3 + y2 * y3 + z2 * z3 = 0" .
qed


lemma mul_inverse_from_frame:
  assumes "valid_frame f"
  shows "mul (from_frame f) (inverse_transformation (from_frame f)) = identity"
proof -
  obtain x1 x2 x3 y1 y2 y3 z1 z2 z3 p1 p2 p3 where
    v: "xaxis f = V3 x1 x2 x3" "yaxis f = V3 y1 y2 y3" "zaxis f = V3 z1 z2 z3"
       "point f = V3 p1 p2 p3"
    by (cases "xaxis f"; cases "yaxis f"; cases "zaxis f"; cases "point f") auto
  have c: "cross (V3 y1 y2 y3) (V3 z1 z2 z3) = V3 x1 x2 x3"
          "cross (V3 z1 z2 z3) (V3 x1 x2 x3) = V3 y1 y2 y3"
          "cross (V3 x1 x2 x3) (V3 y1 y2 y3) = V3 z1 z2 z3"
    using valid_frame_axes(1,2)[OF assms] v(3) by (simp_all add: v zaxis_def)
  have n: "dot (V3 x1 x2 x3) (V3 x1 x2 x3) = 1" "dot (V3 y1 y2 y3) (V3 y1 y2 y3) = 1"
          "dot (V3 z1 z2 z3) (V3 z1 z2 z3) = 1"
    using assms valid_frame_axes(3)[OF assms] by (simp_all add: valid_frame_def v)
  note r = rows_orthonormal[OF c n]
  have t1: "p1 - (x1 * (x1 * p1 + x2 * p2 + x3 * p3) + y1 * (y1 * p1 + y2 * p2 + y3 * p3)
              + z1 * (z1 * p1 + z2 * p2 + z3 * p3)) = 0"
  proof -
    have "x1 * (x1 * p1 + x2 * p2 + x3 * p3) + y1 * (y1 * p1 + y2 * p2 + y3 * p3)
              + z1 * (z1 * p1 + z2 * p2 + z3 * p3)
        = (x1 * x1 + y1 * y1 + z1 * z1) * p1 + (x1 * x2 + y1 * y2 + z1 * z2) * p2
          + (x1 * x3 + y1 * y3 + z1 * z3) * p3"
      by (simp add: algebra_simps)
    then show ?thesis by (simp add: r)
  qed
  have t2: "p2 - (x2 * (x1 * p1 + x2 * p2 + x3 * p3) + y2 * (y1 * p1 + y2 * p2 + y3 * p3)
              + z2 * (z1 * p1 + z2 * p2 + z3 * p3)) = 0"
  proof -
    have "x2 * (x1 * p1 + x2 * p2 + x3 * p3) + y2 * (y1 * p1 + y2 * p2 + y3 * p3)
              + z2 * (z1 * p1 + z2 * p2 + z3 * p3)
        = (x1 * x2 + y1 * y2 + z1 * z2) * p1 + (x2 * x2 + y2 * y2 + z2 * z2) * p2
          + (x2 * x3 + y2 * y3 + z2 * z3) * p3"
      by (simp add: algebra_simps)
    then show ?thesis by (simp add: r)
  qed
  have t3: "p3 - (x3 * (x1 * p1 + x2 * p2 + x3 * p3) + y3 * (y1 * p1 + y2 * p2 + y3 * p3)
              + z3 * (z1 * p1 + z2 * p2 + z3 * p3)) = 0"
  proof -
    have "x3 * (x1 * p1 + x2 * p2 + x3 * p3) + y3 * (y1 * p1 + y2 * p2 + y3 * p3)
              + z3 * (z1 * p1 + z2 * p2 + z3 * p3)
        = (x1 * x3 + y1 * y3 + z1 * z3) * p1 + (x2 * x3 + y2 * y3 + z2 * z3) * p2
          + (x3 * x3 + y3 * y3 + z3 * z3) * p3"
      by (simp add: algebra_simps)
    then show ?thesis by (simp add: r)
  qed
  have m: "mul (from_frame f) (inverse_transformation (from_frame f)) =
      \<lparr>col_x = V3 (x1 * x1 + y1 * y1 + z1 * z1) (x1 * x2 + y1 * y2 + z1 * z2) (x1 * x3 + y1 * y3 + z1 * z3),
       col_y = V3 (x1 * x2 + y1 * y2 + z1 * z2) (x2 * x2 + y2 * y2 + z2 * z2) (x2 * x3 + y2 * y3 + z2 * z3),
       col_z = V3 (x1 * x3 + y1 * y3 + z1 * z3) (x2 * x3 + y2 * y3 + z2 * z3) (x3 * x3 + y3 * y3 + z3 * z3),
       translation = V3
         (p1 - (x1 * (x1 * p1 + x2 * p2 + x3 * p3) + y1 * (y1 * p1 + y2 * p2 + y3 * p3)
              + z1 * (z1 * p1 + z2 * p2 + z3 * p3)))
         (p2 - (x2 * (x1 * p1 + x2 * p2 + x3 * p3) + y2 * (y1 * p1 + y2 * p2 + y3 * p3)
              + z2 * (z1 * p1 + z2 * p2 + z3 * p3)))
         (p3 - (x3 * (x1 * p1 + x2 * p2 + x3 * p3) + y3 * (y1 * p1 + y2 * p2 + y3 * p3)
              + z3 * (z1 * p1 + z2 * p2 + z3 * p3)))\<rparr>"
    by (simp add: inverse_transformation_from_frame[OF assms] v)
       (simp add: mul_def from_frame_def v algebra_simps)
  show ?thesis
    unfolding m t1 t2 t3 by (simp add: r identity_def)
qed



subsection \<open>One frame converted there and back\<close>

lemma tcf_t0cf_tcf_frame:
  assumes F: "valid_frame F" and f: "valid_frame f"
  shows "from_transformation
           (mul (from_frame (from_transformation (mul (from_frame f) (from_frame_to_frame F worldXY))))
                (from_frame_to_frame worldXY F)) = f"
proof -
  let ?G = "inverse_transformation (from_frame F)"
  have "right_handed (mul (from_frame f) ?G)"
    by (rule right_handed_mul[OF rotation_from_frame[OF f] right_handed_inverse[OF F]])
  then have "from_frame (from_transformation (mul (from_frame f) ?G)) = mul (from_frame f) ?G"
    by (rule from_frame_from_transformation)
  then show ?thesis
    by (simp add: to_world from_world mul_assoc inverse_mul_from_frame[OF F] mul_identity_right
        from_transformation_from_frame)
qed

lemma t0cf_tcf_t0cf_frame:
  assumes F: "valid_frame F" and f: "valid_frame f"
  shows "from_transformation
           (mul (from_frame (from_transformation (mul (from_frame f) (from_frame_to_frame worldXY F))))
                (from_frame_to_frame F worldXY)) = f"
proof -
  have "right_handed (mul (from_frame f) (from_frame F))"
    by (rule right_handed_mul[OF rotation_from_frame[OF f] right_handed_from_frame])
  then have "from_frame (from_transformation (mul (from_frame f) (from_frame F)))
      = mul (from_frame f) (from_frame F)"
    by (rule from_frame_from_transformation)
  then show ?thesis
    by (simp add: to_world from_world mul_assoc mul_inverse_from_frame[OF F] mul_identity_right
        from_transformation_from_frame)
qed


section \<open>The object store\<close>

lemma new_frame_simps:
  "fst (new_frame f s) = next_ref s"
  "frames (snd (new_frame f s)) = (frames s)(next_ref s := f)"
  "tools (snd (new_frame f s)) = tools s"
  "robots (snd (new_frame f s)) = robots s"
  "next_ref (snd (new_frame f s)) = Suc (next_ref s)"
  by (simp_all add: new_frame_def)

lemma new_tool_simps:
  "fst (new_tool t s) = next_ref s"
  "frames (snd (new_tool t s)) = frames s"
  "tools (snd (new_tool t s)) = (tools s)(next_ref s := t)"
  "robots (snd (new_tool t s)) = robots s"
  "next_ref (snd (new_tool t s)) = Suc (next_ref s)"
  by (simp_all add: new_tool_def)

lemma frames_times_length: "length (fst (frames_times Te fs s)) = length fs"
  by (induction fs arbitrary: s) (simp_all add: split_beta Let_def)

lemma frames_times_next: "next_ref (snd (frames_times Te fs s)) = next_ref s + length fs"
  by (induction fs arbitrary: s) (simp_all add: split_beta Let_def new_frame_simps)

lemma frames_times_tools: "tools (snd (frames_times Te fs s)) = tools s"
  by (induction fs arbitrary: s) (simp_all add: split_beta Let_def new_frame_simps)

lemma frames_times_robots: "robots (snd (frames_times Te fs s)) = robots s"
  by (induction fs arbitrary: s) (simp_all add: split_beta Let_def new_frame_simps)

lemma frames_times_old: "r < next_ref s \<Longrightarrow> frames (snd (frames_times Te fs s)) r = frames s r"
  by (induction fs arbitrary: s) (simp_all add: split_beta Let_def new_frame_simps)

lemma frames_times_refs: "fst (frames_times Te fs s) = [next_ref s ..< next_ref s + length fs]"
  by (induction fs arbitrary: s) (simp_all add: split_beta Let_def new_frame_simps upt_rec)

lemma frames_times_values:
  "\<forall>r \<in> set fs. r < next_ref s \<Longrightarrow>
   map (frames (snd (frames_times Te fs s))) (fst (frames_times Te fs s)) =
   map (\<lambda>f. from_transformation (mul (from_frame (frames s f)) Te)) fs"
proof (induction fs arbitrary: s)
  case Nil
  then show ?case by simp
next
  case (Cons f fs)
  let ?v = "from_transformation (mul (from_frame (frames s f)) Te)"
  let ?s1 = "snd (new_frame ?v s)"
  have old: "\<forall>r \<in> set fs. r < next_ref ?s1"
    using Cons.prems by (simp add: new_frame_simps less_Suc_eq)
  have hd: "frames (snd (frames_times Te fs ?s1)) (next_ref s) = ?v"
    by (simp add: frames_times_old new_frame_simps)
  have tl: "map (\<lambda>f. from_transformation (mul (from_frame (frames ?s1 f)) Te)) fs
        = map (\<lambda>f. from_transformation (mul (from_frame (frames s f)) Te)) fs"
    using Cons.prems by (auto simp add: new_frame_simps)
  show ?case using Cons.IH[OF old] hd tl
    by (simp add: split_beta Let_def new_frame_simps)
qed

lemma frames_times_fresh: "\<forall>r \<in> set (fst (frames_times Te fs s)). r < next_ref (snd (frames_times Te fs s))"
  by (simp add: frames_times_refs frames_times_next)

lemma frames_times_twice:
  assumes "\<forall>r \<in> set fs. r < next_ref s"
  shows "map (frames (snd (frames_times T2 (fst (frames_times T1 fs s)) (snd (frames_times T1 fs s)))))
           (fst (frames_times T2 (fst (frames_times T1 fs s)) (snd (frames_times T1 fs s)))) =
         map (\<lambda>f. from_transformation
                (mul (from_frame (from_transformation (mul (from_frame (frames s f)) T1))) T2)) fs"
proof -
  let ?out = "fst (frames_times T1 fs s)" and ?s1 = "snd (frames_times T1 fs s)"
  have "map (frames (snd (frames_times T2 ?out ?s1))) (fst (frames_times T2 ?out ?s1)) =
        map (\<lambda>f. from_transformation (mul (from_frame (frames ?s1 f)) T2)) ?out"
    by (rule frames_times_values[OF frames_times_fresh])
  also have "\<dots> = map (\<lambda>v. from_transformation (mul (from_frame v) T2)) (map (frames ?s1) ?out)"
    by simp
  also have "\<dots> = map (\<lambda>f. from_transformation
                (mul (from_frame (from_transformation (mul (from_frame (frames s f)) T1))) T2)) fs"
    by (simp add: frames_times_values[OF assms])
  finally show ?thesis .
qed

lemma self_frame_kept:
  "frame (tools s self) < next_ref s \<Longrightarrow>
   frames (snd (frames_times Te fs s)) (frame (tools (snd (frames_times Te fs s)) self)) =
   frames s (frame (tools s self))"
  by (simp add: frames_times_tools frames_times_old)

lemma frames_times_of_values:
  "\<forall>r \<in> set fs. r < next_ref s \<Longrightarrow>
   map (frames (snd (frames_times Te fs s))) (fst (frames_times Te fs s)) =
   map (\<lambda>v. from_transformation (mul (from_frame v) Te)) (map (frames s) fs)"
  by (simp add: frames_times_values)


subsection \<open>Dictionaries and records\<close>

lemma RobotModel_data_lookup:
  "RobotModel_data r ''name'' = Some (name r)"
  "RobotModel_data r ''links'' = Some (PLinks (links r))"
  "RobotModel_data r ''joints'' = Some (PJoints (joints r))"
  "RobotModel_data r ''frame'' = None"
  "RobotModel_data r ''link_name'' = None"
  by (simp_all add: RobotModel_data_def)

lemma data_AttributeError: "data self s = Inl (AttributeError ''fget'')"
  by (simp add: data_def dict_fget_def)

lemma from_robot_model_data_base:
  "from_robot_model_data (RobotModelRef r) f lnk s =
     Inr ((RobotModel_data (robots s r))(''frame'' \<mapsto> Frame_data (frames s f), ''link_name'' \<mapsto> lnk))"
  by (simp add: from_robot_model_data_def Let_def)

lemma from_robot_model_data_tool:
  "from_robot_model_data (ToolModelRef r) f lnk s = Inl (AttributeError ''fget'')"
  by (simp add: from_robot_model_data_def data_AttributeError)

text \<open>What \<^verbatim>\<open>from_data\<close> returns on a dictionary with a well-formed frame entry.\<close>

lemma from_data_frame:
  assumes "d ''frame'' = Some (Frame_data f)"
  shows "from_data d s =
     Inr (Suc (next_ref s),
          s\<lparr>frames := (frames s)(next_ref s := f),
            tools := (tools s)(Suc (next_ref s) :=
              robot_model.extend
                ((RobotModel_from_data d)\<lparr>name := py_or (name (RobotModel_from_data d)) (PStr ''attached_tool'')\<rparr>)
                \<lparr>frame = next_ref s, link_name = (case d ''link_name'' of Some v \<Rightarrow> v | None \<Rightarrow> PNone)\<rparr>),
            next_ref := Suc (Suc (next_ref s))\<rparr>)"
  using assms by (simp add: from_data_def Let_def Frame_data_def new_frame_def new_tool_def)

lemma extend_sel:
  "name (robot_model.extend r m) = name r"
  "links (robot_model.extend r m) = links r"
  "joints (robot_model.extend r m) = joints r"
  "frame (robot_model.extend r \<lparr>frame = f, link_name = l\<rparr>) = f"
  "link_name (robot_model.extend r \<lparr>frame = f, link_name = l\<rparr>) = l"
  by (simp_all add: robot_model.extend_def)

lemma RobotModel_from_data_sel:
  "name (RobotModel_from_data d) = (case d ''name'' of Some n \<Rightarrow> n | None \<Rightarrow> PNone)"
  "d ''links'' = Some (PLinks ls) \<Longrightarrow> links (RobotModel_from_data d) = ls"
  "d ''joints'' = Some (PJoints js) \<Longrightarrow> joints (RobotModel_from_data d) = js"
  by (simp_all add: RobotModel_from_data_def)

subsection \<open>The example state\<close>

lemma doc_tool_store_simps:
  "next_ref doc_tool_store = 7"
  "frames doc_tool_store 0 = doc_tool_frame"
  "frames doc_tool_store 1 = doc_tcf_frame"
  "frames doc_tool_store (Suc 0) = doc_tcf_frame"
  "frames doc_tool_store 2 = exact_frame"
  "frames doc_tool_store 3 = doc_t0cf_frame"
  "frame (tools doc_tool_store 6) = 0"
  by (simp_all add: doc_tool_store_def ToolModel_init_def new_tool_def example_store_def Let_def
      robot_model.extend_def add_link_def RobotModel_init_def)

lemma valid_example_frames: "valid_frame doc_tool_frame" "valid_frame exact_frame"
  by (simp_all add: valid_frame_def doc_tool_frame_def exact_frame_def)




lemma unnamed_tool_store_simps:
  "next_ref unnamed_tool_store = 7"
  "name (tools unnamed_tool_store 6) = PStr []"
  "frame (tools unnamed_tool_store 6) = 0"
  "link_name (tools unnamed_tool_store 6) = PNone"
  "frames unnamed_tool_store 0 = doc_tool_frame"
  by (simp_all add: unnamed_tool_store_def ToolModel_init_def new_tool_def example_store_def Let_def
      extend_sel add_link_def RobotModel_init_def)

lemma example_store_simps:
  "next_ref example_store = 6"
  "robots example_store 4 = example_robot"
  "frames example_store 0 = doc_tool_frame"
  by (simp_all add: example_store_def)

lemma doc_transformations:
  "from_frame_to_frame doc_tool_frame worldXY =
     \<lparr>col_x = V3 0 0 1, col_y = V3 1 0 0, col_z = V3 0 1 0, translation = V3 0 0 (- (14 / 100))\<rparr>"
  "from_frame_to_frame worldXY doc_tool_frame =
     \<lparr>col_x = V3 0 1 0, col_y = V3 0 0 1, col_z = V3 1 0 0, translation = V3 (14 / 100) 0 0\<rparr>"
  by (simp_all add: to_world from_world inverse_transformation_from_frame valid_example_frames)
     (simp_all add: from_frame_def zaxis_def doc_tool_frame_def)

section \<open>The frame conversions\<close>

text \<open>
  Claim C4. For every tool and every list of frames that exist in the store, also the
  empty one, \<^verbatim>\<open>from_tcf_to_t0cf\<close> and \<^verbatim>\<open>from_t0cf_to_tcf\<close> each return a list of the same
  length, and the i-th returned frame is the transformation of the i-th input frame
  multiplied by the one transformation \<open>Te\<close> built from \<^verbatim>\<open>self.frame\<close> (from that frame to the
  world frame for \<^verbatim>\<open>from_tcf_to_t0cf\<close>, from the world frame to that frame for
  \<^verbatim>\<open>from_t0cf_to_tcf\<close>), converted back to a frame.
\<close>

theorem conversions_elementwise:
  assumes "\<forall>r \<in> set fs. r < next_ref s"
    and "from_tcf_to_t0cf self fs s = (out1, s1)"
    and "from_t0cf_to_tcf self fs s = (out2, s2)"
  shows "length out1 = length fs \<and> length out2 = length fs \<and>
    (\<forall>i < length fs.
       frames s1 (out1 ! i) =
         from_transformation (mul (from_frame (frames s (fs ! i)))
           (from_frame_to_frame (frames s (frame (tools s self))) worldXY)) \<and>
       frames s2 (out2 ! i) =
         from_transformation (mul (from_frame (frames s (fs ! i)))
           (from_frame_to_frame worldXY (frames s (frame (tools s self))))))"
proof -
  let ?Te1 = "from_frame_to_frame (frames s (frame (tools s self))) worldXY"
  let ?Te2 = "from_frame_to_frame worldXY (frames s (frame (tools s self)))"
  have o1: "out1 = fst (frames_times ?Te1 fs s)" "s1 = snd (frames_times ?Te1 fs s)"
    using assms(2) by (simp_all add: from_tcf_to_t0cf_def)
  have o2: "out2 = fst (frames_times ?Te2 fs s)" "s2 = snd (frames_times ?Te2 fs s)"
    using assms(3) by (simp_all add: from_t0cf_to_tcf_def)
  have l1: "length out1 = length fs" and l2: "length out2 = length fs"
    by (simp_all add: o1 o2 frames_times_length)
  have m1: "map (frames s1) out1 = map (\<lambda>f. from_transformation (mul (from_frame (frames s f)) ?Te1)) fs"
    unfolding o1 by (rule frames_times_values[OF assms(1)])
  have m2: "map (frames s2) out2 = map (\<lambda>f. from_transformation (mul (from_frame (frames s f)) ?Te2)) fs"
    unfolding o2 by (rule frames_times_values[OF assms(1)])
  have "frames s1 (out1 ! i) = from_transformation (mul (from_frame (frames s (fs ! i))) ?Te1)"
    if "i < length fs" for i
    using arg_cong[OF m1, of "\<lambda>xs. xs ! i"] that l1 by simp
  moreover have "frames s2 (out2 ! i) = from_transformation (mul (from_frame (frames s (fs ! i))) ?Te2)"
    if "i < length fs" for i
    using arg_cong[OF m2, of "\<lambda>xs. xs ! i"] that l2 by simp
  ultimately show ?thesis using l1 l2 by simp
qed


theorem conversions_elementwise_witness:
  "1 < next_ref doc_tool_store \<and>
   length (fst (from_tcf_to_t0cf 6 [1] doc_tool_store)) = 1 \<and>
   frames (snd (from_tcf_to_t0cf 6 [1] doc_tool_store)) (fst (from_tcf_to_t0cf 6 [1] doc_tool_store) ! 0) =
     from_transformation (mul (from_frame doc_tcf_frame) (from_frame_to_frame doc_tool_frame worldXY)) \<and>
   frames (snd (from_t0cf_to_tcf 6 [1] doc_tool_store)) (fst (from_t0cf_to_tcf 6 [1] doc_tool_store) ! 0) =
     from_transformation (mul (from_frame doc_tcf_frame) (from_frame_to_frame worldXY doc_tool_frame))"
proof -
  have h: "\<forall>r \<in> set [1]. r < next_ref doc_tool_store"
    by (simp add: doc_tool_store_simps)
  show ?thesis
    using h conversions_elementwise[OF h surjective_pairing surjective_pairing, of 6]
    by (simp add: doc_tool_store_simps)
qed



text \<open>
  Claim C1. With real arithmetic in place of floating point: for every tool whose frame is
  valid and every list \<open>X\<close> of valid frames, also the empty one, the frames returned by
  \<^verbatim>\<open>from_tcf_to_t0cf\<close> followed by \<^verbatim>\<open>from_t0cf_to_tcf\<close> are equal to those of \<open>X\<close>, element by
  element; the same holds in the other order, so the two conversions are mutual inverses.
\<close>

theorem conversions_round_trip:
  assumes F: "valid_frame (frames s (frame (tools s self)))"
    and ref: "frame (tools s self) < next_ref s"
    and X: "\<forall>r \<in> set X. r < next_ref s \<and> valid_frame (frames s r)"
  shows "(from_tcf_to_t0cf self X s = (Y, s1) \<longrightarrow> from_t0cf_to_tcf self Y s1 = (Z, s2) \<longrightarrow>
            map (frames s2) Z = map (frames s) X) \<and>
         (from_t0cf_to_tcf self X s = (Y', s1') \<longrightarrow> from_tcf_to_t0cf self Y' s1' = (Z', s2') \<longrightarrow>
            map (frames s2') Z' = map (frames s) X)"
proof (intro conjI impI)
  let ?F = "frames s (frame (tools s self))"
  have refs: "\<forall>r \<in> set X. r < next_ref s" using X by simp
  {
    assume a: "from_tcf_to_t0cf self X s = (Y, s1)" and b: "from_t0cf_to_tcf self Y s1 = (Z, s2)"
    let ?T1 = "from_frame_to_frame ?F worldXY" and ?T2 = "from_frame_to_frame worldXY ?F"
    have y: "Y = fst (frames_times ?T1 X s)" "s1 = snd (frames_times ?T1 X s)"
      using a by (simp_all add: from_tcf_to_t0cf_def)
    have F1: "frames s1 (frame (tools s1 self)) = ?F"
      unfolding y by (rule self_frame_kept[OF ref])
    have z: "Z = fst (frames_times ?T2 Y s1)" "s2 = snd (frames_times ?T2 Y s1)"
      using b by (simp_all add: from_t0cf_to_tcf_def F1)
    have "map (frames s2) Z = map (\<lambda>f. from_transformation
             (mul (from_frame (from_transformation (mul (from_frame (frames s f)) ?T1))) ?T2)) X"
      unfolding z y by (rule frames_times_twice[OF refs])
    also have "\<dots> = map (frames s) X"
      using X by (simp add: tcf_t0cf_tcf_frame[OF F])
    finally show "map (frames s2) Z = map (frames s) X" .
  }
  {
    assume a: "from_t0cf_to_tcf self X s = (Y', s1')" and b: "from_tcf_to_t0cf self Y' s1' = (Z', s2')"
    let ?T1 = "from_frame_to_frame worldXY ?F" and ?T2 = "from_frame_to_frame ?F worldXY"
    have y: "Y' = fst (frames_times ?T1 X s)" "s1' = snd (frames_times ?T1 X s)"
      using a by (simp_all add: from_t0cf_to_tcf_def)
    have F1: "frames s1' (frame (tools s1' self)) = ?F"
      unfolding y by (rule self_frame_kept[OF ref])
    have z: "Z' = fst (frames_times ?T2 Y' s1')" "s2' = snd (frames_times ?T2 Y' s1')"
      using b by (simp_all add: from_tcf_to_t0cf_def F1)
    have "map (frames s2') Z' = map (\<lambda>f. from_transformation
             (mul (from_frame (from_transformation (mul (from_frame (frames s f)) ?T1))) ?T2)) X"
      unfolding z y by (rule frames_times_twice[OF refs])
    also have "\<dots> = map (frames s) X"
      using X by (simp add: t0cf_tcf_t0cf_frame[OF F])
    finally show "map (frames s2') Z' = map (frames s) X" .
  }
qed


theorem conversions_round_trip_witness:
  "valid_frame (frames doc_tool_store (frame (tools doc_tool_store 6))) \<and>
   frame (tools doc_tool_store 6) < next_ref doc_tool_store \<and>
   2 < next_ref doc_tool_store \<and> valid_frame (frames doc_tool_store 2) \<and>
   (let (Y, s1) = from_tcf_to_t0cf 6 [2] doc_tool_store; (Z, s2) = from_t0cf_to_tcf 6 Y s1
    in map (frames s2) Z = [exact_frame]) \<and>
   (let (Y, s1) = from_t0cf_to_tcf 6 [2] doc_tool_store; (Z, s2) = from_tcf_to_t0cf 6 Y s1
    in map (frames s2) Z = [exact_frame])"
proof -
  have F: "valid_frame (frames doc_tool_store (frame (tools doc_tool_store 6)))"
    by (simp add: doc_tool_store_simps valid_example_frames)
  have r: "frame (tools doc_tool_store 6) < next_ref doc_tool_store"
    by (simp add: doc_tool_store_simps)
  have X: "\<forall>r \<in> set [2]. r < next_ref doc_tool_store \<and> valid_frame (frames doc_tool_store r)"
    by (simp add: doc_tool_store_simps valid_example_frames)
  have "map (frames (snd (from_t0cf_to_tcf 6 (fst (from_tcf_to_t0cf 6 [2] doc_tool_store))
                 (snd (from_tcf_to_t0cf 6 [2] doc_tool_store)))))
          (fst (from_t0cf_to_tcf 6 (fst (from_tcf_to_t0cf 6 [2] doc_tool_store))
                 (snd (from_tcf_to_t0cf 6 [2] doc_tool_store)))) = map (frames doc_tool_store) [2]"
    using conversions_round_trip[OF F r X] surjective_pairing by blast
  moreover have "map (frames (snd (from_tcf_to_t0cf 6 (fst (from_t0cf_to_tcf 6 [2] doc_tool_store))
                 (snd (from_t0cf_to_tcf 6 [2] doc_tool_store)))))
          (fst (from_tcf_to_t0cf 6 (fst (from_t0cf_to_tcf 6 [2] doc_tool_store))
                 (snd (from_t0cf_to_tcf 6 [2] doc_tool_store)))) = map (frames doc_tool_store) [2]"
    using conversions_round_trip[OF F r X] surjective_pairing by blast
  ultimately show ?thesis
    using F r X by (simp add: split_beta doc_tool_store_simps)
qed



text \<open>
  Claim C7. A call of \<^verbatim>\<open>from_tcf_to_t0cf\<close> or of \<^verbatim>\<open>from_t0cf_to_tcf\<close> changes no tool, no robot
  model and no frame that exists in the store, so neither \<^verbatim>\<open>self\<close>, \<^verbatim>\<open>self.frame\<close> nor the
  input frames; the frames it returns depend only on the value of \<^verbatim>\<open>self.frame\<close> and on the
  values of the input frames; and a second call on the same input returns the same frames.
\<close>

theorem conversions_pure:
  assumes a: "from_tcf_to_t0cf self fs s = (out1, s1)"
    and b: "from_t0cf_to_tcf self fs s = (out2, s2)"
  shows "tools s1 = tools s \<and> robots s1 = robots s \<and> (\<forall>r < next_ref s. frames s1 r = frames s r) \<and>
         tools s2 = tools s \<and> robots s2 = robots s \<and> (\<forall>r < next_ref s. frames s2 r = frames s r) \<and>
         ((\<forall>r \<in> set fs. r < next_ref s) \<and> (\<forall>r \<in> set gs. r < next_ref t) \<and>
          frames t (frame (tools t other)) = frames s (frame (tools s self)) \<and>
          map (frames t) gs = map (frames s) fs \<longrightarrow>
            map (frames (snd (from_tcf_to_t0cf other gs t))) (fst (from_tcf_to_t0cf other gs t)) =
              map (frames s1) out1 \<and>
            map (frames (snd (from_t0cf_to_tcf other gs t))) (fst (from_t0cf_to_tcf other gs t)) =
              map (frames s2) out2) \<and>
         ((\<forall>r \<in> set fs. r < next_ref s) \<and> frame (tools s self) < next_ref s \<longrightarrow>
            map (frames (snd (from_tcf_to_t0cf self fs s1))) (fst (from_tcf_to_t0cf self fs s1)) =
              map (frames s1) out1 \<and>
            map (frames (snd (from_t0cf_to_tcf self fs s2))) (fst (from_t0cf_to_tcf self fs s2)) =
              map (frames s2) out2)"
proof -
  let ?F = "frames s (frame (tools s self))"
  let ?T1 = "from_frame_to_frame ?F worldXY" and ?T2 = "from_frame_to_frame worldXY ?F"
  have o1: "out1 = fst (frames_times ?T1 fs s)" "s1 = snd (frames_times ?T1 fs s)"
    using a by (simp_all add: from_tcf_to_t0cf_def)
  have o2: "out2 = fst (frames_times ?T2 fs s)" "s2 = snd (frames_times ?T2 fs s)"
    using b by (simp_all add: from_t0cf_to_tcf_def)
  have kept1: "tools s1 = tools s" "robots s1 = robots s" "\<forall>r < next_ref s. frames s1 r = frames s r"
    by (simp_all add: o1 frames_times_tools frames_times_robots frames_times_old)
  have kept2: "tools s2 = tools s" "robots s2 = robots s" "\<forall>r < next_ref s. frames s2 r = frames s r"
    by (simp_all add: o2 frames_times_tools frames_times_robots frames_times_old)
  have next1: "next_ref s \<le> next_ref s1" and next2: "next_ref s \<le> next_ref s2"
    by (simp_all add: o1 o2 frames_times_next)
  have r1: "map (frames s1) out1 = map (\<lambda>v. from_transformation (mul (from_frame v) ?T1)) (map (frames s) fs)"
    and r2: "map (frames s2) out2 = map (\<lambda>v. from_transformation (mul (from_frame v) ?T2)) (map (frames s) fs)"
    if fs: "\<forall>r \<in> set fs. r < next_ref s"
    unfolding o1 o2 by (rule frames_times_of_values[OF fs])+
  have call: "map (frames (snd (from_tcf_to_t0cf other gs t))) (fst (from_tcf_to_t0cf other gs t)) =
                map (\<lambda>v. from_transformation (mul (from_frame v) ?T1)) (map (frames s) fs) \<and>
              map (frames (snd (from_t0cf_to_tcf other gs t))) (fst (from_t0cf_to_tcf other gs t)) =
                map (\<lambda>v. from_transformation (mul (from_frame v) ?T2)) (map (frames s) fs)"
    if gs: "\<forall>r \<in> set gs. r < next_ref t"
      and F: "frames t (frame (tools t other)) = ?F" and v: "map (frames t) gs = map (frames s) fs"
    for t other gs
    unfolding from_tcf_to_t0cf_def from_t0cf_to_tcf_def Let_def F
    by (simp only: frames_times_of_values[OF gs] v)
  have same: "map (frames (snd (from_tcf_to_t0cf other gs t))) (fst (from_tcf_to_t0cf other gs t)) =
              map (frames s1) out1 \<and>
            map (frames (snd (from_t0cf_to_tcf other gs t))) (fst (from_t0cf_to_tcf other gs t)) =
              map (frames s2) out2"
    if fs: "\<forall>r \<in> set fs. r < next_ref s" and gs: "\<forall>r \<in> set gs. r < next_ref t"
      and F: "frames t (frame (tools t other)) = ?F" and v: "map (frames t) gs = map (frames s) fs"
    for t other gs
    using call[OF gs F v] by (simp only: r1[OF fs] r2[OF fs])
  have again: "map (frames (snd (from_tcf_to_t0cf self fs s1))) (fst (from_tcf_to_t0cf self fs s1)) =
              map (frames s1) out1 \<and>
            map (frames (snd (from_t0cf_to_tcf self fs s2))) (fst (from_t0cf_to_tcf self fs s2)) =
              map (frames s2) out2"
    if fs: "\<forall>r \<in> set fs. r < next_ref s" and ref: "frame (tools s self) < next_ref s"
  proof -
    have v1: "map (frames s1) fs = map (frames s) fs" and v2: "map (frames s2) fs = map (frames s) fs"
      using fs kept1(3) kept2(3) by simp_all
    have F1: "frames s1 (frame (tools s1 self)) = ?F" and F2: "frames s2 (frame (tools s2 self)) = ?F"
      using ref kept1 kept2 by simp_all
    have fs1: "\<forall>r \<in> set fs. r < next_ref s1" and fs2: "\<forall>r \<in> set fs. r < next_ref s2"
      using fs next1 next2 by auto
    show ?thesis
      using call[OF fs1 F1 v1] call[OF fs2 F2 v2] by (simp only: r1[OF fs] r2[OF fs])
  qed
  show ?thesis using kept1 kept2 same again by blast
qed



theorem conversions_pure_witness:
  "(let (out1, s1) = from_tcf_to_t0cf 6 [1, 2] doc_tool_store;
        (out2, s2) = from_t0cf_to_tcf 6 [1, 2] doc_tool_store
    in tools s1 = tools doc_tool_store \<and> tools s2 = tools doc_tool_store \<and>
       frames s1 0 = doc_tool_frame \<and> frames s1 1 = doc_tcf_frame \<and> frames s2 2 = exact_frame \<and>
       1 < next_ref doc_tool_store \<and> 2 < next_ref doc_tool_store \<and>
       frame (tools doc_tool_store 6) < next_ref doc_tool_store \<and>
       map (frames (snd (from_tcf_to_t0cf 6 [1, 2] s1))) (fst (from_tcf_to_t0cf 6 [1, 2] s1)) =
         map (frames s1) out1 \<and>
       map (frames (snd (from_t0cf_to_tcf 6 [1, 2] s2))) (fst (from_t0cf_to_tcf 6 [1, 2] s2)) =
         map (frames s2) out2)"
proof -
  have h: "\<forall>r \<in> set [1, 2]. r < next_ref doc_tool_store"
    "frame (tools doc_tool_store 6) < next_ref doc_tool_store"
    by (simp_all add: doc_tool_store_simps)
  show ?thesis
    using h conversions_pure[where self = 6 and fs = "[1, 2]" and s = doc_tool_store
        and other = 6 and gs = "[1, 2]" and t = doc_tool_store, OF surjective_pairing surjective_pairing]
    by (simp add: split_beta doc_tool_store_simps)
qed



subsection \<open>The examples of the docstrings\<close>

text \<open>
  The docstrings of the two conversions print an input and its result to three decimal
  places. The model computes the same results from the same inputs.
\<close>

lemma docstring_from_tcf_to_t0cf:
  "(let (out, s1) = from_tcf_to_t0cf 6 [1] doc_tool_store; t0cf_frame = frames s1 (hd out)
    in close_to (point t0cf_frame) (V3 (- 363 / 1000) (3 / 1000) (- 147 / 1000)) \<and>
       close_to (xaxis t0cf_frame) (V3 (388 / 1000) (- 351 / 1000) (- 852 / 1000)) \<and>
       close_to (yaxis t0cf_frame) (V3 (276 / 1000) (926 / 1000) (- 256 / 1000)))"
  by (simp add: from_tcf_to_t0cf_def Let_def split_beta new_frame_def doc_tool_store_simps
      doc_transformations)
     (simp add: from_transformation_def mul_def from_frame_def zaxis_def doc_tcf_frame_def)

lemma docstring_from_t0cf_to_tcf:
  "(let (out, s1) = from_t0cf_to_tcf 6 [3] doc_tool_store; tcf_frame = frames s1 (hd out)
    in close_to (point tcf_frame) (V3 (- 309 / 1000) (- 46 / 1000) (- 266 / 1000)) \<and>
       close_to (xaxis tcf_frame) (V3 (276 / 1000) (926 / 1000) (- 256 / 1000)) \<and>
       close_to (yaxis tcf_frame) (V3 (879 / 1000) (- 136 / 1000) (456 / 1000)))"
  by (simp add: from_t0cf_to_tcf_def Let_def split_beta new_frame_def doc_tool_store_simps
      doc_transformations)
     (simp add: from_transformation_def mul_def from_frame_def zaxis_def doc_t0cf_frame_def)

section \<open>Construction\<close>

text \<open>
  Claim C6. \<^verbatim>\<open>ToolModel(visual, frame)\<close> with every other argument omitted yields a tool whose
  one link holds, as its collision mesh, the very reference that was given as the visual
  mesh (no copy is made); its name is \<^verbatim>\<open>"attached_tool"\<close> and its \<^verbatim>\<open>link_name\<close> is \<^verbatim>\<open>None\<close>.
\<close>

theorem init_defaults:
  assumes "ToolModel_init visual f None None None s = (t, s')"
  shows "links (tools s' t) =
           [\<lparr>lname = ''attached_tool_link'', visual_mesh = Some visual, collision_mesh = Some visual\<rparr>] \<and>
         collision_mesh (hd (links (tools s' t))) = visual_mesh (hd (links (tools s' t))) \<and>
         joints (tools s' t) = [] \<and>
         name (tools s' t) = PStr ''attached_tool'' \<and>
         link_name (tools s' t) = PNone \<and>
         frame (tools s' t) = f"
  using assms
  by (auto simp add: ToolModel_init_def Let_def new_tool_def extend_sel add_link_def RobotModel_init_def)

theorem init_defaults_witness:
  "(let (t, s') = ToolModel_init 5 0 None None None example_store
    in collision_mesh (hd (links (tools s' t))) = Some 5 \<and>
       visual_mesh (hd (links (tools s' t))) = Some 5 \<and>
       name (tools s' t) = PStr ''attached_tool'' \<and> link_name (tools s' t) = PNone)"
  using init_defaults[OF surjective_pairing, of 5 0 example_store]
  by (simp add: split_beta)

section \<open>Serialisation\<close>

text \<open>
  Claim C9. Whatever the state of the instance and of the store, \<^verbatim>\<open>dtype\<close> returns the one
  string \<^verbatim>\<open>"compas_robots/ToolModel"\<close>.
\<close>

theorem dtype_fixed: "dtype self s = ''compas_robots/ToolModel'' \<and> dtype self s = dtype other t"
  by (simp add: dtype_def)

text \<open>
  Claim C10. The claim is that the dictionary that \<^verbatim>\<open>data\<close> returns always has the keys
  \<^verbatim>\<open>"frame"\<close> and \<^verbatim>\<open>"link_name"\<close>, and that the dictionary that \<^verbatim>\<open>from_robot_model\<close> passes to
  \<^verbatim>\<open>from_data\<close> has both keys as well. The second part holds for a \<^verbatim>\<open>robot\<close> that is an
  instance of the base class. For the first, the code returns no dictionary: for every
  tool, so for the tool \<^verbatim>\<open>ToolModel(mesh, frame)\<close> of the docstrings, line 89 raises
  \<^verbatim>\<open>AttributeError\<close>; and so does line 70 when \<^verbatim>\<open>robot\<close> is a tool.
\<close>

theorem data_raises:
  "data self s = Inl (AttributeError ''fget'') \<and>
   data 6 doc_tool_store = Inl (AttributeError ''fget'') \<and>
   (\<exists>d. from_robot_model_data (RobotModelRef robot) f lnk s = Inr d \<and>
      ''frame'' \<in> dom d \<and> ''link_name'' \<in> dom d \<and> d ''link_name'' = Some lnk \<and>
      from_robot_model (RobotModelRef robot) f lnk s = from_data d s) \<and>
   from_robot_model_data (ToolModelRef self) f lnk s = Inl (AttributeError ''fget'')"
  by (simp add: data_AttributeError from_robot_model_data_base from_robot_model_data_tool
      from_robot_model_def)

text \<open>
  Claim C3. On every dictionary without the key \<^verbatim>\<open>"frame"\<close>, \<^verbatim>\<open>from_data\<close> fails with a
  \<^verbatim>\<open>KeyError\<close>; on a dictionary with a frame and without the key \<^verbatim>\<open>"link_name"\<close> it returns a
  tool whose \<^verbatim>\<open>link_name\<close> is \<^verbatim>\<open>None\<close>.
\<close>

theorem from_data_missing_keys:
  "(d ''frame'' = None \<longrightarrow> from_data d s = Inl (KeyError ''frame'')) \<and>
   (d ''frame'' = Some (Frame_data f) \<longrightarrow> d ''link_name'' = None \<longrightarrow>
      (\<exists>t s'. from_data d s = Inr (t, s') \<and> link_name (tools s' t) = PNone))"
  by (simp add: from_data_frame extend_sel) (simp add: from_data_def Let_def)

theorem from_data_missing_keys_witness:
  "from_data (Map.empty(''name'' \<mapsto> PStr ''gripper'')) example_store = Inl (KeyError ''frame'') \<and>
   map_option link_name (tool_of (from_data [''frame'' \<mapsto> Frame_data doc_tool_frame] example_store)) =
     Some PNone"
proof -
  have "from_data (Map.empty(''name'' \<mapsto> PStr ''gripper'')) example_store = Inl (KeyError ''frame'')"
    using from_data_missing_keys[where d = "Map.empty(''name'' \<mapsto> PStr ''gripper'')"
        and s = example_store]
    by simp
  moreover have "map_option link_name (tool_of (from_data [''frame'' \<mapsto> Frame_data doc_tool_frame] example_store)) =
     Some PNone"
    using from_data_missing_keys[where d = "[''frame'' \<mapsto> Frame_data doc_tool_frame]"
        and f = doc_tool_frame and s = example_store]
    by auto
  ultimately show ?thesis by simp
qed

text \<open>
  Claim C8. Whenever \<^verbatim>\<open>from_data\<close> accepts a dictionary and the name of the reconstructed
  base tree is falsy (the key \<^verbatim>\<open>"name"\<close> is missing, or its value is \<^verbatim>\<open>None\<close> or the empty
  string), the name of the resulting tool is \<^verbatim>\<open>"attached_tool"\<close>. The constructor stores a
  given name as it is, the empty string too.
\<close>

theorem name_defaulting:
  "(from_data d s = Inr (t, s') \<longrightarrow> \<not> truthy (name (RobotModel_from_data d)) \<longrightarrow>
      name (tools s' t) = PStr ''attached_tool'') \<and>
   (from_data d s = Inr (t, s') \<longrightarrow> d ''name'' \<in> {None, Some PNone, Some (PStr [])} \<longrightarrow>
      name (tools s' t) = PStr ''attached_tool'') \<and>
   (ToolModel_init visual f collision (Some n) lnk s = (t2, s2) \<longrightarrow> name (tools s2 t2) = n)"
proof -
  have 1: "name (tools s' t) = PStr ''attached_tool''"
    if "from_data d s = Inr (t, s')" "\<not> truthy (name (RobotModel_from_data d))"
    using that
    by (auto simp add: from_data_def Let_def new_frame_def new_tool_def extend_sel py_or_def
        split: option.splits sum.splits)
  have 2: "\<not> truthy (name (RobotModel_from_data d))"
    if "d ''name'' \<in> {None, Some PNone, Some (PStr [])}"
    using that by (auto simp add: RobotModel_from_data_sel)
  have 3: "name (tools s2 t2) = n" if "ToolModel_init visual f collision (Some n) lnk s = (t2, s2)"
    using that
    by (auto simp add: ToolModel_init_def Let_def new_tool_def extend_sel add_link_def RobotModel_init_def)
  show ?thesis using 1 2 3 by blast
qed

theorem name_defaulting_witness:
  "(let d = [''frame'' \<mapsto> Frame_data doc_tool_frame]
    in map_option name (tool_of (from_data d example_store)) = Some (PStr ''attached_tool'')) \<and>
   (let (t, s') = ToolModel_init 5 0 None (Some (PStr [])) None example_store
    in name (tools s' t) = PStr [])"
proof -
  let ?d = "[''frame'' \<mapsto> Frame_data doc_tool_frame]"
  obtain t s' where r: "from_data ?d example_store = Inr (t, s')"
    by (simp add: from_data_frame)
  have "name (tools s' t) = PStr ''attached_tool''"
    using name_defaulting[where d = ?d and s = example_store and t = t and s' = s'] r by (simp add: RobotModel_from_data_sel)
  moreover have "name (tools (snd (ToolModel_init 5 0 None (Some (PStr [])) None example_store))
      (fst (ToolModel_init 5 0 None (Some (PStr [])) None example_store))) = PStr []"
    using name_defaulting[where visual = 5 and f = 0 and collision = None and n = "PStr []"
        and lnk = None and s = example_store
        and ?t2.0 = "fst (ToolModel_init 5 0 None (Some (PStr [])) None example_store)"
        and ?s2.0 = "snd (ToolModel_init 5 0 None (Some (PStr [])) None example_store)"]
    by simp
  ultimately show ?thesis using r by (simp add: split_beta)
qed

subsection \<open>What \<^verbatim>\<open>from_data\<close> makes of the state of a tool\<close>

text \<open>
  Let \<open>d\<close> be a dictionary that holds the state of a tool \<open>x\<close>: the data of the base class,
  the frame of \<open>x\<close> under \<^verbatim>\<open>"frame"\<close> and its link name under \<^verbatim>\<open>"link_name"\<close>. From \<open>d\<close>,
  \<^verbatim>\<open>from_data\<close> returns a tool with the same links and joints, an equal frame and the same
  \<^verbatim>\<open>link_name\<close>; its name is the name of \<open>x\<close> when that name is truthy, and
  \<^verbatim>\<open>"attached_tool"\<close> when the name of \<open>x\<close> is empty or \<^verbatim>\<open>None\<close> (line 112).
\<close>

lemma from_data_restores:
  assumes "d ''name'' = Some (name (tools s x))"
    and "d ''links'' = Some (PLinks (links (tools s x)))"
    and "d ''joints'' = Some (PJoints (joints (tools s x)))"
    and "d ''frame'' = Some (Frame_data (frames s (frame (tools s x))))"
    and "d ''link_name'' = Some (link_name (tools s x))"
  shows "\<exists>t s'. from_data d s = Inr (t, s') \<and>
     links (tools s' t) = links (tools s x) \<and>
     joints (tools s' t) = joints (tools s x) \<and>
     frames s' (frame (tools s' t)) = frames s (frame (tools s x)) \<and>
     link_name (tools s' t) = link_name (tools s x) \<and>
     name (tools s' t) =
       (if truthy (name (tools s x)) then name (tools s x) else PStr ''attached_tool'')"
  using assms
  by (simp add: from_data_frame[where d = d, OF assms(4)] extend_sel RobotModel_from_data_sel py_or_def)

lemma from_data_empty_name:
  "name (tools unnamed_tool_store 6) = PStr [] \<and>
   unnamed_tool_dict ''name'' = Some (name (tools unnamed_tool_store 6)) \<and>
   map_option name (tool_of (from_data unnamed_tool_dict unnamed_tool_store)) =
     Some (PStr ''attached_tool'')"
proof -
  have f: "unnamed_tool_dict ''frame'' = Some (Frame_data doc_tool_frame)"
    by (simp add: unnamed_tool_dict_def doc_tool_dict_def)
  show ?thesis
    by (simp add: from_data_frame[where d = unnamed_tool_dict, OF f] extend_sel
        RobotModel_from_data_sel py_or_def unnamed_tool_store_simps)
       (simp add: unnamed_tool_dict_def)
qed

subsection \<open>The round trip and the alternate constructor\<close>

text \<open>
  Claim C2. The claim is that, for every tool \<open>x\<close>, \<^verbatim>\<open>ToolModel.from_data(x.data)\<close> is a tool
  with the links, the frame, the \<^verbatim>\<open>link_name\<close> and the name of \<open>x\<close>. The code returns no
  tool: \<^verbatim>\<open>x.data\<close> raises \<^verbatim>\<open>AttributeError\<close> in line 89 for every tool \<open>x\<close>, so for the tool
  \<^verbatim>\<open>ToolModel(mesh, frame)\<close> of the docstrings, whose name is not empty, and \<^verbatim>\<open>from_data\<close> is
  never reached.
\<close>

theorem from_data_of_data_raises:
  "(case data x s of Inl e \<Rightarrow> Inl e | Inr d \<Rightarrow> from_data d s) = Inl (AttributeError ''fget'') \<and>
   (case data 6 doc_tool_store of Inl e \<Rightarrow> Inl e | Inr d \<Rightarrow> from_data d doc_tool_store) =
     Inl (AttributeError ''fget'') \<and>
   tool_of (case data 6 doc_tool_store of Inl e \<Rightarrow> Inl e | Inr d \<Rightarrow> from_data d doc_tool_store) = None \<and>
   name (tools doc_tool_store 6) = PStr ''attached_tool''"
  by (simp add: data_AttributeError)
     (simp add: doc_tool_store_def ToolModel_init_def new_tool_def example_store_def Let_def
      extend_sel add_link_def RobotModel_init_def)

text \<open>
  Claim C5. The claim is that, for every robot model \<^verbatim>\<open>robot\<close>,
  \<^verbatim>\<open>from_robot_model(robot, frame, link_name)\<close> does not mutate \<^verbatim>\<open>robot\<close> and returns a tool with
  the links and joints of \<^verbatim>\<open>robot\<close>, the given frame and the given \<^verbatim>\<open>link_name\<close>. For a
  \<^verbatim>\<open>robot\<close> that is an instance of the base class the code does so: it returns a tool and
  changes no robot model, no tool and no frame that exists in the store. For a \<^verbatim>\<open>robot\<close>
  that is itself a tool, line 70 reaches line 89 and the call raises \<^verbatim>\<open>AttributeError\<close>: no
  tool is returned.
\<close>

theorem from_robot_model_effect:
  "(\<exists>t s'. from_robot_model (RobotModelRef robot) f lnk s = Inr (t, s') \<and>
     robots s' = robots s \<and>
     (\<forall>r < next_ref s. frames s' r = frames s r \<and> tools s' r = tools s r) \<and>
     links (tools s' t) = links (robots s robot) \<and>
     joints (tools s' t) = joints (robots s robot) \<and>
     frames s' (frame (tools s' t)) = frames s f \<and>
     link_name (tools s' t) = lnk) \<and>
   from_robot_model (ToolModelRef x) f lnk s = Inl (AttributeError ''fget'') \<and>
   from_robot_model (ToolModelRef 6) 0 PNone doc_tool_store = Inl (AttributeError ''fget'')"
proof -
  let ?d = "(RobotModel_data (robots s robot))(''frame'' \<mapsto> Frame_data (frames s f), ''link_name'' \<mapsto> lnk)"
  have fr: "?d ''frame'' = Some (Frame_data (frames s f))"
    by simp
  have "\<exists>t s'. from_data ?d s = Inr (t, s') \<and>
     robots s' = robots s \<and>
     (\<forall>r < next_ref s. frames s' r = frames s r \<and> tools s' r = tools s r) \<and>
     links (tools s' t) = links (robots s robot) \<and>
     joints (tools s' t) = joints (robots s robot) \<and>
     frames s' (frame (tools s' t)) = frames s f \<and>
     link_name (tools s' t) = lnk"
    by (simp add: from_data_frame[where d = ?d, OF fr] extend_sel RobotModel_from_data_sel
        RobotModel_data_lookup)
  then show ?thesis
    by (simp add: from_robot_model_def from_robot_model_data_base from_robot_model_data_tool)
qed

theorem from_robot_model_effect_witness:
  "(let r = from_robot_model (RobotModelRef 4) 0 (PStr ''tool0'') example_store
    in map_option links (tool_of r) = Some (links example_robot) \<and>
       map_option joints (tool_of r) = Some (joints example_robot) \<and>
       map_option link_name (tool_of r) = Some (PStr ''tool0'') \<and>
       (case r of Inl e \<Rightarrow> False
        | Inr (t, s') \<Rightarrow> robots s' 4 = example_robot \<and> frames s' 0 = doc_tool_frame \<and>
            frames s' (frame (tools s' t)) = doc_tool_frame))"
  using from_robot_model_effect[where robot = 4 and f = 0 and lnk = "PStr ''tool0''"
      and s = example_store and x = 6]
  by (auto simp add: example_store_simps)

end
